theory Spec2Isabelle
  imports Complex_Main "HOL-Library.Char_ord" "HOL-Library.List_Lexorder"
begin

section \<open>Zoom attendance analyzer: the data\<close>

text \<open>
  The development embeds \<^verbatim>\<open>analyze_file\<close> of \<^verbatim>\<open>analyze_attendance.py\<close>, lines 78 to 141
  (loading, class bounds, exclusion, aggregation, derived columns, status), together with
  the places after line 141 where the function raises on the data it computed.

  Conventions of the embedding.
  \<^item> A cell of the CSV file is classified by what pandas makes of it: a time cell is blank
    (\<^verbatim>\<open>NaN\<close> after \<^verbatim>\<open>read_csv\<close>, \<^verbatim>\<open>NaT\<close> after \<^verbatim>\<open>to_datetime\<close>), a text that
    \<^verbatim>\<open>to_datetime\<close> parses (carried as the timestamp it denotes, in nanoseconds), or a text
    it cannot parse. A duration cell is blank, a finite number, or a text that is no number.
  \<^item> A \<^verbatim>\<open>Timestamp\<close> is an \<open>int option\<close>: nanoseconds, \<open>None\<close> for \<^verbatim>\<open>NaT\<close>.
  \<^item> A finite \<^verbatim>\<open>float64\<close> is a rational: the rounding error of binary floating point, signed
    zeros and overflow are outside the model. What division by zero produces is inside it:
    the type \<open>float64\<close> has the two infinities and \<^verbatim>\<open>NaN\<close>.
  \<^item> Names are ASCII strings; a missing name (\<^verbatim>\<open>NaN\<close>) is \<open>None\<close>. The column
    \<^verbatim>\<open>User Name\<close> holds text: a column of numbers only is outside the model.
\<close>

datatype time_cell = Blank_Time | Stamp int | Garbled_Time

datatype number_cell = Blank_Number | Number rat | Non_Numeric

record csv_row =
  User_Name_cell :: "string option"
  User_Email_cell :: "string option"
  Join_time_cell :: time_cell
  Leave_time_cell :: time_cell
  Duration_cell :: number_cell

text \<open>A row of the data frame \<^verbatim>\<open>df\<close> after lines 80 to 82.\<close>

record df_row =
  User_Name :: "string option"
  User_Email :: "string option"
  Join_time :: "int option"
  Leave_time :: "int option"
  Duration :: "rat option"

record config =
  professor :: string
  exclude :: "string list"
  min_attendance_pct :: rat
  late_threshold_min :: rat
  early_leave_threshold_min :: rat
  ghost_join_max_min :: rat

datatype float64 = Fin rat | PInf | NInf | NaN

datatype status = Ghost_Join | Present | Absent_Brief

text \<open>What \<^verbatim>\<open>agg_student\<close> returns for one group, with the group key that
  \<^verbatim>\<open>reset_index\<close> turns into the column \<^verbatim>\<open>User Name\<close>.\<close>

record agg_row =
  Name :: string
  Email :: string
  Total_Minutes :: rat
  Raw_Sessions :: nat
  Real_Sessions :: nat
  First_Join :: "int option"
  Last_Leave :: "int option"

text \<open>A row of \<^verbatim>\<open>summary\<close> after line 141.\<close>

record summary_row = agg_row +
  Pct_Attended :: float64
  Late_Join_Min :: float64
  Left_Early_Min :: float64
  Is_Late :: bool
  Left_Early :: bool
  Reconnected :: bool
  Ghost_Only :: bool
  Status :: status

datatype error =
  DateParseError
  | AttributeError
  | NaT_strftime_ValueError
  | KeyError

datatype message = Professor_not_found string

record report =
  class_start :: "int option"
  class_end :: "int option"
  class_duration :: float64
  printed :: "message list"
  summary :: "summary_row list"

section \<open>The pandas and numpy operations used\<close>

subsection \<open>Loading\<close>

text \<open>\<^verbatim>\<open>pd.to_datetime(column)\<close> with the default \<^verbatim>\<open>errors='raise'\<close>: one text that does
  not parse raises for the whole column, and then no cell is converted (so the value
  that \<open>to_datetime_cell\<close> gives to such a text is never used); a blank cell becomes
  \<^verbatim>\<open>NaT\<close>.\<close>

definition to_datetime_raises :: "time_cell list \<Rightarrow> bool" where
  "to_datetime_raises col = (Garbled_Time \<in> set col)"

fun to_datetime_cell :: "time_cell \<Rightarrow> int option" where
  "to_datetime_cell (Stamp t) = Some t"
| "to_datetime_cell Blank_Time = None"
| "to_datetime_cell Garbled_Time = None"


text \<open>\<^verbatim>\<open>pd.to_numeric(column, errors='coerce')\<close>: what is no number becomes \<^verbatim>\<open>NaN\<close>.\<close>

fun to_numeric_coerce :: "number_cell \<Rightarrow> rat option" where
  "to_numeric_coerce (Number d) = Some d"
| "to_numeric_coerce Blank_Number = None"
| "to_numeric_coerce Non_Numeric = None"

definition load_row :: "csv_row \<Rightarrow> df_row" where
  "load_row r =
     \<lparr>User_Name = User_Name_cell r,
      User_Email = User_Email_cell r,
      Join_time = to_datetime_cell (Join_time_cell r),
      Leave_time = to_datetime_cell (Leave_time_cell r),
      Duration = to_numeric_coerce (Duration_cell r)\<rparr>"

subsection \<open>Strings\<close>

definition lower_char :: "char \<Rightarrow> char" where
  "lower_char c =
     (if CHR ''A'' \<le> c \<and> c \<le> CHR ''Z'' then char_of (of_char c + (32::nat)) else c)"

definition lower :: "string \<Rightarrow> string" where
  "lower s = map lower_char s"

definition is_space :: "char \<Rightarrow> bool" where
  "is_space c = (c \<in> set [CHR '' '', CHR 0x09, CHR 0x0A, CHR 0x0B, CHR 0x0C, CHR 0x0D,
                           CHR 0x1C, CHR 0x1D, CHR 0x1E, CHR 0x1F])"

definition strip :: "string \<Rightarrow> string" where
  "strip s = rev (dropWhile is_space (rev (dropWhile is_space s)))"

text \<open>\<^verbatim>\<open>df['User Name'].str\<close>: the accessor exists on a column of text. A column with rows
  but no name at all is read as \<^verbatim>\<open>float64\<close>, and the accessor raises.\<close>

definition str_accessor_ok :: "df_row list \<Rightarrow> bool" where
  "str_accessor_ok df = (df = [] \<or> (\<exists>r \<in> set df. User_Name r \<noteq> None))"

text \<open>\<^verbatim>\<open>.str.lower()\<close> leaves a missing name missing.\<close>

definition str_lower :: "string option \<Rightarrow> string option" where
  "str_lower n = map_option lower n"

subsection \<open>Reductions of a column\<close>

text \<open>\<^verbatim>\<open>Series.min()\<close> and \<^verbatim>\<open>Series.max()\<close> of a column of timestamps skip \<^verbatim>\<open>NaT\<close>; with
  nothing left the result is \<^verbatim>\<open>NaT\<close>.\<close>

definition dropna :: "'a option list \<Rightarrow> 'a list" where
  "dropna col = [v. Some v \<leftarrow> col]"

definition series_min :: "int option list \<Rightarrow> int option" where
  "series_min col = (case dropna col of [] \<Rightarrow> None | t # ts \<Rightarrow> Some (fold min ts t))"

definition series_max :: "int option list \<Rightarrow> int option" where
  "series_max col = (case dropna col of [] \<Rightarrow> None | t # ts \<Rightarrow> Some (fold max ts t))"

text \<open>\<^verbatim>\<open>Series.sum()\<close> skips \<^verbatim>\<open>NaN\<close>; the sum of nothing is 0.\<close>

definition series_sum :: "rat option list \<Rightarrow> rat" where
  "series_sum col = sum_list (dropna col)"

subsection \<open>Floating point\<close>

text \<open>Rounding to the nearest integer, ties to even (\<^verbatim>\<open>rint\<close>), and to one decimal as numpy
  does it: scale by 10, \<^verbatim>\<open>rint\<close>, scale back.\<close>

definition rint :: "rat \<Rightarrow> int" where
  "rint x =
     (let f = \<lfloor>x\<rfloor>; r = x - of_int f
      in if r < 1 / 2 then f else if 1 / 2 < r then f + 1 else if even f then f else f + 1)"

definition round1 :: "rat \<Rightarrow> rat" where
  "round1 x = of_int (rint (x * 10)) / 10"

fun fround1 :: "float64 \<Rightarrow> float64" where
  "fround1 (Fin a) = Fin (round1 a)"
| "fround1 x = x"

fun fdiv :: "float64 \<Rightarrow> float64 \<Rightarrow> float64" where
  "fdiv NaN y = NaN"
| "fdiv x NaN = NaN"
| "fdiv (Fin a) (Fin b) =
     (if b = 0 then (if 0 < a then PInf else if a < 0 then NInf else NaN) else Fin (a / b))"
| "fdiv (Fin a) PInf = Fin 0"
| "fdiv (Fin a) NInf = Fin 0"
| "fdiv PInf (Fin b) = (if b < 0 then NInf else PInf)"
| "fdiv NInf (Fin b) = (if b < 0 then PInf else NInf)"
| "fdiv x y = NaN"

fun fmul :: "float64 \<Rightarrow> float64 \<Rightarrow> float64" where
  "fmul NaN y = NaN"
| "fmul x NaN = NaN"
| "fmul (Fin a) (Fin b) = Fin (a * b)"
| "fmul (Fin a) PInf = (if 0 < a then PInf else if a < 0 then NInf else NaN)"
| "fmul (Fin a) NInf = (if 0 < a then NInf else if a < 0 then PInf else NaN)"
| "fmul PInf (Fin b) = (if 0 < b then PInf else if b < 0 then NInf else NaN)"
| "fmul NInf (Fin b) = (if 0 < b then NInf else if b < 0 then PInf else NaN)"
| "fmul PInf PInf = PInf"
| "fmul NInf NInf = PInf"
| "fmul PInf NInf = NInf"
| "fmul NInf PInf = NInf"

text \<open>Comparisons with a number of the configuration: false on \<^verbatim>\<open>NaN\<close>.\<close>

fun fgt :: "float64 \<Rightarrow> rat \<Rightarrow> bool" where
  "fgt (Fin a) b = (b < a)"
| "fgt PInf b = True"
| "fgt NInf b = False"
| "fgt NaN b = False"

fun fge :: "float64 \<Rightarrow> rat \<Rightarrow> bool" where
  "fge (Fin a) b = (b \<le> a)"
| "fge PInf b = True"
| "fge NInf b = False"
| "fge NaN b = False"

text \<open>\<^verbatim>\<open>.clip(lower=0)\<close> keeps \<^verbatim>\<open>NaN\<close>.\<close>

fun clip_lower :: "rat \<Rightarrow> float64 \<Rightarrow> float64" where
  "clip_lower lo (Fin a) = Fin (max lo a)"
| "clip_lower lo PInf = PInf"
| "clip_lower lo NInf = Fin lo"
| "clip_lower lo NaN = NaN"

subsection \<open>Time differences\<close>

text \<open>The difference of two timestamps is a \<^verbatim>\<open>Timedelta\<close> in nanoseconds, \<^verbatim>\<open>NaT\<close> when
  either is; \<^verbatim>\<open>total_seconds()\<close> of \<^verbatim>\<open>NaT\<close> is \<^verbatim>\<open>NaN\<close>.\<close>

fun timedelta :: "int option \<Rightarrow> int option \<Rightarrow> int option" where
  "timedelta (Some a) (Some b) = Some (a - b)"
| "timedelta a b = None"

fun total_seconds :: "int option \<Rightarrow> float64" where
  "total_seconds (Some d) = Fin (of_int d / 1000000000)"
| "total_seconds None = NaN"

section \<open>The analysis\<close>

subsection \<open>Aggregation of one student's rows\<close>

text \<open>\<^verbatim>\<open>agg_student\<close> (lines 106 to 122). The e-mail is the first one that is present and
  not blank; the total is rounded to one decimal; a real session is a row whose duration
  is greater than \<^verbatim>\<open>ghost_join_max_min\<close> (a comparison that is false on \<^verbatim>\<open>NaN\<close>).\<close>

definition is_real_session :: "config \<Rightarrow> df_row \<Rightarrow> bool" where
  "is_real_session cfg r =
     (case Duration r of None \<Rightarrow> False | Some d \<Rightarrow> ghost_join_max_min cfg < d)"

definition agg_student :: "config \<Rightarrow> string \<times> df_row list \<Rightarrow> agg_row" where
  "agg_student cfg kg =
     (let grp = snd kg;
          email = (case find (\<lambda>v. strip v \<noteq> []) (dropna (map User_Email grp)) of
                     Some v \<Rightarrow> v | None \<Rightarrow> []);
          total_min = series_sum (map Duration grp);
          sessions = length grp;
          first_join = series_min (map Join_time grp);
          last_leave = series_max (map Leave_time grp);
          real_sessions = filter (is_real_session cfg) grp;
          real_session_count = length real_sessions
      in \<lparr>Name = fst kg,
          Email = email,
          Total_Minutes = round1 total_min,
          Raw_Sessions = sessions,
          Real_Sessions = real_session_count,
          First_Join = first_join,
          Last_Leave = last_leave\<rparr>)"

text \<open>\<^verbatim>\<open>students.groupby('User Name')\<close>: one group for each distinct value of the column,
  compared as it stands; rows with a missing name are in no group (\<^verbatim>\<open>dropna=True\<close>);
  the groups come in the order of their keys (\<^verbatim>\<open>sort=True\<close>), the rows of a group in
  the order of the file.\<close>

definition groupby_User_Name :: "df_row list \<Rightarrow> (string \<times> df_row list) list" where
  "groupby_User_Name students =
     map (\<lambda>k. (k, filter (\<lambda>r. User_Name r = Some k) students))
         (sort (remdups (dropna (map User_Name students))))"

subsection \<open>Derived columns\<close>

text \<open>Lines 127 to 141, for one row of \<^verbatim>\<open>summary\<close>.\<close>

definition minutes_between :: "int option \<Rightarrow> int option \<Rightarrow> float64" where
  "minutes_between a b = fdiv (total_seconds (timedelta a b)) (Fin 60)"

definition derived_columns ::
  "config \<Rightarrow> int option \<Rightarrow> int option \<Rightarrow> float64 \<Rightarrow> agg_row \<Rightarrow> summary_row" where
  "derived_columns cfg start end' duration a =
     (let pct_attended = fround1 (fmul (fdiv (Fin (Total_Minutes a)) duration) (Fin 100));
          late_join_min = clip_lower 0 (fround1 (minutes_between (First_Join a) start));
          left_early_min = clip_lower 0 (fround1 (minutes_between end' (Last_Leave a)));
          ghost_only = (Total_Minutes a \<le> ghost_join_max_min cfg)
      in \<lparr>Name = Name a,
          Email = Email a,
          Total_Minutes = Total_Minutes a,
          Raw_Sessions = Raw_Sessions a,
          Real_Sessions = Real_Sessions a,
          First_Join = First_Join a,
          Last_Leave = Last_Leave a,
          Pct_Attended = pct_attended,
          Late_Join_Min = late_join_min,
          Left_Early_Min = left_early_min,
          Is_Late = fgt late_join_min (late_threshold_min cfg),
          Left_Early = fgt left_early_min (early_leave_threshold_min cfg),
          Reconnected = (1 < Real_Sessions a),
          Ghost_Only = ghost_only,
          Status = (if ghost_only then Ghost_Join
                    else if fge pct_attended (min_attendance_pct cfg) then Present
                    else Absent_Brief)\<rparr>)"

subsection \<open>Class bounds and exclusion\<close>

definition is_professor :: "config \<Rightarrow> df_row \<Rightarrow> bool" where
  "is_professor cfg r = (str_lower (User_Name r) = Some (lower (professor cfg)))"

text \<open>Line 103: \<^verbatim>\<open>isin\<close> is false on a missing name, so its row stays.\<close>

definition is_excluded :: "config \<Rightarrow> df_row \<Rightarrow> bool" where
  "is_excluded cfg r =
     (case str_lower (User_Name r) of
        None \<Rightarrow> False
      | Some n \<Rightarrow> n \<in> set (map lower (exclude cfg)))"

text \<open>Lines 85 to 92: the bounds and what is printed on the way.\<close>

definition class_bounds :: "config \<Rightarrow> df_row list \<Rightarrow> message list \<times> int option \<times> int option" where
  "class_bounds cfg df =
     (let prof_rows = filter (is_professor cfg) df
      in if prof_rows = []
         then ([Professor_not_found (professor cfg)],
               series_min (map Join_time df), series_max (map Leave_time df))
         else ([], series_min (map Join_time prof_rows), series_max (map Leave_time prof_rows)))"

subsection \<open>The whole function\<close>

text \<open>
  The places where \<^verbatim>\<open>analyze_file\<close> raises, in the order of the source:
  \<^item> lines 80 and 81, \<^verbatim>\<open>to_datetime\<close> on a text that is no date;
  \<^item> line 85, the \<^verbatim>\<open>.str\<close> accessor on a column without text;
  \<^item> line 95, \<^verbatim>\<open>strftime\<close> on a \<^verbatim>\<open>class_start\<close> that is \<^verbatim>\<open>NaT\<close>;
  \<^item> line 127, \<^verbatim>\<open>summary['Total_Minutes']\<close> when there is no group: \<^verbatim>\<open>apply\<close> then
    returns an empty frame that has the columns of \<^verbatim>\<open>students\<close>;
  \<^item> line 237, \<^verbatim>\<open>strftime\<close> on a \<^verbatim>\<open>class_end\<close> that is \<^verbatim>\<open>NaT\<close>.
  Writing the spreadsheet (lines 178 to 255) is not modelled otherwise.
\<close>

definition analyze_file :: "config \<Rightarrow> csv_row list \<Rightarrow> error + report" where
  "analyze_file cfg csv =
     (if to_datetime_raises (map Join_time_cell csv) then Inl DateParseError
      else if to_datetime_raises (map Leave_time_cell csv) then Inl DateParseError
      else
        let df = map load_row csv
        in if \<not> str_accessor_ok df then Inl AttributeError
           else
             let (out, start, end') = class_bounds cfg df;
                 duration = minutes_between end' start
             in if start = None then Inl NaT_strftime_ValueError
                else
                  let students = filter (\<lambda>r. \<not> is_excluded cfg r) df;
                      groups = groupby_User_Name students
                  in if groups = [] then Inl KeyError
                     else
                       let rows = map (\<lambda>g. derived_columns cfg start end' duration
                                              (agg_student cfg g)) groups
                       in if end' = None then Inl NaT_strftime_ValueError
                          else Inr \<lparr>class_start = start, class_end = end',
                                    class_duration = duration, printed = out,
                                    summary = rows\<rparr>)"

section \<open>Example inputs\<close>

text \<open>The configuration of the source (lines 22 to 31), without the two directories.\<close>

definition CONFIG :: config where
  "CONFIG =
     \<lparr>professor = ''beth bonsignore'',
      exclude = [''beth bonsignore'', ''jay walter'', ''Vivek Chaurasia''],
      min_attendance_pct = 50,
      late_threshold_min = 10,
      early_leave_threshold_min = 10,
      ghost_join_max_min = 2\<rparr>"

text \<open>Times of the examples are given in minutes; 540 is 09:00 on the first day.\<close>

definition at_minute :: "int \<Rightarrow> int" where
  "at_minute m = m * 60000000000"

definition attendance :: "string \<Rightarrow> int \<Rightarrow> int \<Rightarrow> rat \<Rightarrow> csv_row" where
  "attendance n a b d =
     \<lparr>User_Name_cell = Some n, User_Email_cell = None,
      Join_time_cell = Stamp (at_minute a), Leave_time_cell = Stamp (at_minute b),
      Duration_cell = Number d\<rparr>"

text \<open>The professor from 09:00 to 10:00; A all of it; B from 09:15; C twice twenty
  minutes; D for one minute.\<close>

definition scenario_csv :: "csv_row list" where
  "scenario_csv =
     [attendance ''Beth Bonsignore'' 540 600 60,
      attendance ''Student A'' 540 600 60,
      attendance ''Student B'' 555 600 45,
      attendance ''Student C'' 540 560 20,
      attendance ''Student C'' 580 600 20,
      attendance ''Student D'' 540 541 1]"

definition student_A :: summary_row where
  "student_A =
     \<lparr>Name = ''Student A'', Email = [], Total_Minutes = 60, Raw_Sessions = 1,
      Real_Sessions = 1, First_Join = Some 32400000000000,
      Last_Leave = Some 36000000000000, Pct_Attended = Fin 100,
      Late_Join_Min = Fin 0, Left_Early_Min = Fin 0, Is_Late = False,
      Left_Early = False, Reconnected = False, Ghost_Only = False, Status = Present\<rparr>"

definition student_B :: summary_row where
  "student_B =
     \<lparr>Name = ''Student B'', Email = [], Total_Minutes = 45, Raw_Sessions = 1,
      Real_Sessions = 1, First_Join = Some 33300000000000,
      Last_Leave = Some 36000000000000, Pct_Attended = Fin 75,
      Late_Join_Min = Fin 15, Left_Early_Min = Fin 0, Is_Late = True,
      Left_Early = False, Reconnected = False, Ghost_Only = False, Status = Present\<rparr>"

definition student_C :: summary_row where
  "student_C =
     \<lparr>Name = ''Student C'', Email = [], Total_Minutes = 40, Raw_Sessions = 2,
      Real_Sessions = 2, First_Join = Some 32400000000000,
      Last_Leave = Some 36000000000000, Pct_Attended = Fin (667 / 10),
      Late_Join_Min = Fin 0, Left_Early_Min = Fin 0, Is_Late = False,
      Left_Early = False, Reconnected = True, Ghost_Only = False, Status = Present\<rparr>"

definition student_D :: summary_row where
  "student_D =
     \<lparr>Name = ''Student D'', Email = [], Total_Minutes = 1, Raw_Sessions = 1,
      Real_Sessions = 0, First_Join = Some 32400000000000,
      Last_Leave = Some 32460000000000, Pct_Attended = Fin (17 / 10),
      Late_Join_Min = Fin 0, Left_Early_Min = Fin 59, Is_Late = False,
      Left_Early = True, Reconnected = False, Ghost_Only = True, Status = Ghost_Join\<rparr>"

definition scenario_report :: report where
  "scenario_report =
     \<lparr>class_start = Some 32400000000000, class_end = Some 36000000000000,
      class_duration = Fin 60, printed = [],
      summary = [student_A, student_B, student_C, student_D]\<rparr>"

text \<open>Two students and no professor: the bounds come from all rows.\<close>

definition no_professor_csv :: "csv_row list" where
  "no_professor_csv =
     [attendance ''Student A'' 535 590 55,
      attendance ''Student B'' 540 605 65]"

definition no_professor_report :: report where
  "no_professor_report =  \<lparr>class_start = Some 32100000000000, class_end = Some 36300000000000,
        class_duration = Fin 70,
        printed = [Professor_not_found ''beth bonsignore''],
        summary =
          [\<lparr>Name = ''Student A'', Email = [], Total_Minutes = 55,
              Raw_Sessions = 1, Real_Sessions = 1,
              First_Join = Some 32100000000000,
              Last_Leave = Some 35400000000000,
              Pct_Attended = Fin (786 / 10), Late_Join_Min = Fin 0,
              Left_Early_Min = Fin 15, Is_Late = False, Left_Early = True,
              Reconnected = False, Ghost_Only = False, Status = Present\<rparr>,
           \<lparr>Name = ''Student B'', Email = [], Total_Minutes = 65,
              Raw_Sessions = 1, Real_Sessions = 1,
              First_Join = Some 32400000000000,
              Last_Leave = Some 36300000000000,
              Pct_Attended = Fin (929 / 10), Late_Join_Min = Fin 5,
              Left_Early_Min = Fin 0, Is_Late = False, Left_Early = False,
              Reconnected = False, Ghost_Only = False, Status = Present\<rparr>]\<rparr>"

text \<open>Two spellings of one name, and the professor.\<close>

definition two_spellings_csv :: "csv_row list" where
  "two_spellings_csv =
     [attendance ''beth bonsignore'' 540 600 60,
      attendance ''Alice'' 540 570 30,
      attendance ''alice'' 570 600 30]"

definition two_spellings_report :: report where
  "two_spellings_report =
     \<lparr>class_start = Some 32400000000000, class_end = Some 36000000000000,
      class_duration = Fin 60, printed = [],
      summary =
        [\<lparr>Name = ''Alice'', Email = [], Total_Minutes = 30, Raw_Sessions = 1,
          Real_Sessions = 1, First_Join = Some 32400000000000,
          Last_Leave = Some 34200000000000, Pct_Attended = Fin 50,
          Late_Join_Min = Fin 0, Left_Early_Min = Fin 30, Is_Late = False,
          Left_Early = True, Reconnected = False, Ghost_Only = False, Status = Present\<rparr>,
         \<lparr>Name = ''alice'', Email = [], Total_Minutes = 30, Raw_Sessions = 1,
          Real_Sessions = 1, First_Join = Some 34200000000000,
          Last_Leave = Some 36000000000000, Pct_Attended = Fin 50,
          Late_Join_Min = Fin 30, Left_Early_Min = Fin 0, Is_Late = True,
          Left_Early = False, Reconnected = False, Ghost_Only = False, Status = Present\<rparr>]\<rparr>"

text \<open>A row without a name that joins first and leaves last, one student, no professor.\<close>

definition missing_name_csv :: "csv_row list" where
  "missing_name_csv =
     [(attendance [] 530 610 80)\<lparr>User_Name_cell := None\<rparr>,
      attendance ''Student A'' 540 600 60]"

definition missing_name_report :: report where
  "missing_name_report =
     \<lparr>class_start = Some 31800000000000, class_end = Some 36600000000000,
      class_duration = Fin 80, printed = [Professor_not_found ''beth bonsignore''],
      summary =
        [\<lparr>Name = ''Student A'', Email = [], Total_Minutes = 60, Raw_Sessions = 1,
          Real_Sessions = 1, First_Join = Some 32400000000000,
          Last_Leave = Some 36000000000000, Pct_Attended = Fin 75,
          Late_Join_Min = Fin 10, Left_Early_Min = Fin 10, Is_Late = False,
          Left_Early = False, Reconnected = False, Ghost_Only = False, Status = Present\<rparr>]\<rparr>"

text \<open>One student in two rows, the first with a duration that is no number; no professor.\<close>

definition non_numeric_csv :: "csv_row list" where
  "non_numeric_csv =
     [(attendance ''Student A'' 530 610 0)\<lparr>Duration_cell := Non_Numeric\<rparr>,
      attendance ''Student A'' 540 600 60]"

definition non_numeric_report :: report where
  "non_numeric_report =
     \<lparr>class_start = Some 31800000000000, class_end = Some 36600000000000,
      class_duration = Fin 80, printed = [Professor_not_found ''beth bonsignore''],
      summary =
        [\<lparr>Name = ''Student A'', Email = [], Total_Minutes = 60, Raw_Sessions = 2,
          Real_Sessions = 1, First_Join = Some 31800000000000,
          Last_Leave = Some 36600000000000, Pct_Attended = Fin 75,
          Late_Join_Min = Fin 0, Left_Early_Min = Fin 0, Is_Late = False,
          Left_Early = False, Reconnected = False, Ghost_Only = False, Status = Present\<rparr>]\<rparr>"

text \<open>The duration of a row of the file as it counts in a sum: 0 when it is no number.\<close>

definition duration_or_zero :: "csv_row \<Rightarrow> rat" where
  "duration_or_zero q = (case to_numeric_coerce (Duration_cell q) of None \<Rightarrow> 0 | Some d \<Rightarrow> d)"

text \<open>One student with a duration of 0.26 minutes, and the professor.\<close>

definition fraction_csv :: "csv_row list" where
  "fraction_csv =
     [attendance ''beth bonsignore'' 540 600 60,
      attendance ''Student A'' 540 600 (26 / 100)]"




text \<open>The third row has a join time that is no date.\<close>

definition garbled_csv :: "csv_row list" where
  "garbled_csv =
     [attendance ''Beth Bonsignore'' 540 600 60,
      attendance ''Student A'' 540 600 60,
      (attendance ''Student B'' 540 600 60)\<lparr>Join_time_cell := Garbled_Time\<rparr>]"

text \<open>A student who joins ten minutes and two seconds after the professor.\<close>

definition two_seconds_csv :: "csv_row list" where
  "two_seconds_csv =
     [attendance ''Beth Bonsignore'' 540 600 60,
      (attendance ''Student A'' 550 600 50)\<lparr>Join_time_cell := Stamp (at_minute 550 + 2000000000)\<rparr>]"


definition two_seconds_report :: report where
  "two_seconds_report =
     \<lparr>class_start = Some 32400000000000, class_end = Some 36000000000000,
      class_duration = Fin 60, printed = [],
      summary =
        [\<lparr>Name = ''Student A'', Email = [], Total_Minutes = 50, Raw_Sessions = 1,
          Real_Sessions = 1, First_Join = Some 33002000000000,
          Last_Leave = Some 36000000000000, Pct_Attended = Fin (833 / 10),
          Late_Join_Min = Fin 10, Left_Early_Min = Fin 0, Is_Late = False,
          Left_Early = False, Reconnected = False, Ghost_Only = False, Status = Present\<rparr>]\<rparr>"

text \<open>A student whose only row has a blank join time.\<close>

definition blank_join_csv :: "csv_row list" where
  "blank_join_csv =
     [attendance ''Beth Bonsignore'' 540 600 60,
      (attendance ''Student A'' 540 600 60)\<lparr>Join_time_cell := Blank_Time\<rparr>]"



section \<open>Facts about the operations\<close>

lemma scenario_run: "analyze_file CONFIG scenario_csv = Inr scenario_report"
  by code_simp

lemma analyze_file_InrD:
  assumes "analyze_file cfg csv = Inr res"
  shows "Garbled_Time \<notin> Join_time_cell ` set csv"
    and "Garbled_Time \<notin> Leave_time_cell ` set csv"
    and "str_accessor_ok (map load_row csv)"
    and "class_bounds cfg (map load_row csv) = (printed res, class_start res, class_end res)"
    and "class_duration res = minutes_between (class_end res) (class_start res)"
    and "class_start res \<noteq> None"
    and "class_end res \<noteq> None"
    and "groupby_User_Name (filter (\<lambda>r. \<not> is_excluded cfg r) (map load_row csv)) \<noteq> []"
    and "summary res =
           map (\<lambda>g. derived_columns cfg (class_start res) (class_end res) (class_duration res)
                       (agg_student cfg g))
               (groupby_User_Name (filter (\<lambda>r. \<not> is_excluded cfg r) (map load_row csv)))"
  using assms unfolding analyze_file_def to_datetime_raises_def
  by (auto simp: Let_def split: if_splits prod.splits)

lemma fold_min_eq_Min: "fold min ts (t::int) = Min (insert t (set ts))"
  using Min.set_eq_fold [of t ts] by simp

lemma fold_max_eq_Max: "fold max ts (t::int) = Max (insert t (set ts))"
  using Max.set_eq_fold [of t ts] by simp

lemma set_dropna: "set (dropna col) = {v. Some v \<in> set col}"
  unfolding dropna_def by (induction col) (auto split: option.splits)

lemma series_min_Some:
  "series_min col = Some m \<longleftrightarrow> (set (dropna col) \<noteq> {} \<and> m = Min (set (dropna col)))"
  unfolding series_min_def by (cases "dropna col") (auto simp: fold_min_eq_Min)

lemma series_max_Some:
  "series_max col = Some m \<longleftrightarrow> (set (dropna col) \<noteq> {} \<and> m = Max (set (dropna col)))"
  unfolding series_max_def by (cases "dropna col") (auto simp: fold_max_eq_Max)

lemma series_min_le:
  assumes "Some t \<in> set col"
  shows "\<exists>m. series_min col = Some m \<and> m \<le> t"
proof -
  from assms have "t \<in> set (dropna col)" by (simp add: set_dropna)
  then have "set (dropna col) \<noteq> {}" and "Min (set (dropna col)) \<le> t" by auto
  then show ?thesis by (simp add: series_min_Some)
qed

lemma series_max_ge:
  assumes "Some t \<in> set col"
  shows "\<exists>m. series_max col = Some m \<and> t \<le> m"
proof -
  from assms have "t \<in> set (dropna col)" by (simp add: set_dropna)
  then have "set (dropna col) \<noteq> {}" and "t \<le> Max (set (dropna col))" by auto
  then show ?thesis by (simp add: series_max_Some)
qed

lemma set_dropna_map: "set (dropna (map f xs)) = {v. \<exists>r \<in> set xs. f r = Some v}"
  unfolding dropna_def by (induction xs) (auto split: option.splits)

lemma groupby_keys:
  "set (map fst (groupby_User_Name xs)) = {k. \<exists>r \<in> set xs. User_Name r = Some k}"
  by (simp add: groupby_User_Name_def set_dropna_map comp_def)

lemma groupby_fst: "map fst (groupby_User_Name xs) = sort (remdups (dropna (map User_Name xs)))"
  by (simp add: groupby_User_Name_def comp_def)

lemma groupby_distinct: "distinct (map fst (groupby_User_Name xs))"
  by (simp add: groupby_fst)

lemma groupby_group:
  assumes "g \<in> set (groupby_User_Name xs)"
  shows "snd g = filter (\<lambda>r. User_Name r = Some (fst g)) xs" and "snd g \<noteq> []"
proof -
  from assms show eq: "snd g = filter (\<lambda>r. User_Name r = Some (fst g)) xs"
    by (auto simp: groupby_User_Name_def)
  from assms have "fst g \<in> set (map fst (groupby_User_Name xs))" by simp
  then obtain r where "r \<in> set xs" "User_Name r = Some (fst g)"
    unfolding groupby_keys by auto
  then show "snd g \<noteq> []" unfolding eq by (auto simp: filter_empty_conv)
qed

lemma sum_list_partition:
  fixes f :: "'r \<Rightarrow> 'a::comm_monoid_add"
  assumes "distinct ks" and "\<forall>r \<in> set xs. \<forall>k. key r = Some k \<longrightarrow> k \<in> set ks"
  shows "(\<Sum>k\<leftarrow>ks. sum_list (map f (filter (\<lambda>r. key r = Some k) xs)))
         = sum_list (map f (filter (\<lambda>r. key r \<noteq> None) xs))"
  using assms(2)
proof (induction xs)
  case Nil
  then show ?case by simp
next
  case (Cons r xs)
  then have IH: "(\<Sum>k\<leftarrow>ks. sum_list (map f (filter (\<lambda>r. key r = Some k) xs)))
         = sum_list (map f (filter (\<lambda>r. key r \<noteq> None) xs))" by simp
  show ?case
  proof (cases "key r")
    case None
    then show ?thesis using IH by simp
  next
    case (Some k0)
    with Cons.prems have k0: "k0 \<in> set ks" by simp
    have "(\<Sum>k\<leftarrow>ks. sum_list (map f (filter (\<lambda>r. key r = Some k) (r # xs))))
          = (\<Sum>k\<leftarrow>ks. (if k = k0 then f r else 0) + sum_list (map f (filter (\<lambda>r. key r = Some k) xs)))"
      using Some by (intro arg_cong [where f = sum_list] map_cong) auto
    also have "\<dots> = (\<Sum>k\<leftarrow>ks. (if k = k0 then f r else 0))
                    + (\<Sum>k\<leftarrow>ks. sum_list (map f (filter (\<lambda>r. key r = Some k) xs)))"
      by (simp add: sum_list_addf)
    also have "(\<Sum>k\<leftarrow>ks. (if k = k0 then f r else 0)) = f r"
      using assms(1) k0 by (simp add: sum_list_distinct_conv_sum_set)
    finally show ?thesis using Some IH by simp
  qed
qed

lemma sum_list_groupby:
  fixes f :: "df_row \<Rightarrow> 'a::comm_monoid_add"
  shows "(\<Sum>g\<leftarrow>groupby_User_Name xs. sum_list (map f (snd g)))
         = sum_list (map f (filter (\<lambda>r. User_Name r \<noteq> None) xs))"
proof -
  let ?ks = "sort (remdups (dropna (map User_Name xs)))"
  have "(\<Sum>g\<leftarrow>groupby_User_Name xs. sum_list (map f (snd g)))
        = (\<Sum>k\<leftarrow>?ks. sum_list (map f (filter (\<lambda>r. User_Name r = Some k) xs)))"
    by (simp add: groupby_User_Name_def comp_def)
  also have "\<dots> = sum_list (map f (filter (\<lambda>r. User_Name r \<noteq> None) xs))"
    by (rule sum_list_partition) (auto simp: set_dropna_map)
  finally show ?thesis .
qed

lemma is_excluded_iff:
  "is_excluded cfg r \<longleftrightarrow> (\<exists>n. User_Name r = Some n \<and> lower n \<in> set (map lower (exclude cfg)))"
  by (cases "User_Name r") (simp_all add: is_excluded_def str_lower_def)

lemma is_professor_iff:
  "is_professor cfg r \<longleftrightarrow> (\<exists>n. User_Name r = Some n \<and> lower n = lower (professor cfg))"
  by (cases "User_Name r") (simp_all add: is_professor_def str_lower_def)

lemma load_row_simps [simp]:
  "User_Name (load_row r) = User_Name_cell r"
  "User_Email (load_row r) = User_Email_cell r"
  "Join_time (load_row r) = to_datetime_cell (Join_time_cell r)"
  "Leave_time (load_row r) = to_datetime_cell (Leave_time_cell r)"
  "Duration (load_row r) = to_numeric_coerce (Duration_cell r)"
  by (simp_all add: load_row_def)

lemma students_group:
  assumes "lower k \<notin> set (map lower (exclude cfg))"
  shows "filter (\<lambda>r. User_Name r = Some k) (filter (\<lambda>r. \<not> is_excluded cfg r) (map load_row csv))
         = map load_row (filter (\<lambda>r. User_Name_cell r = Some k) csv)"
  using assms by (induction csv) (auto simp: is_excluded_iff)

lemma summary_rowD:
  assumes "analyze_file cfg csv = Inr res" and "s \<in> set (summary res)"
  shows "lower (Name s) \<notin> set (map lower (exclude cfg))"
    and "filter (\<lambda>r. User_Name_cell r = Some (Name s)) csv \<noteq> []"
    and "s = derived_columns cfg (class_start res) (class_end res) (class_duration res)
               (agg_student cfg
                  (Name s, map load_row (filter (\<lambda>r. User_Name_cell r = Some (Name s)) csv)))"
proof -
  let ?students = "filter (\<lambda>r. \<not> is_excluded cfg r) (map load_row csv)"
  from analyze_file_InrD(9) [OF assms(1)] assms(2)
  obtain g where g: "g \<in> set (groupby_User_Name ?students)"
    and s: "s = derived_columns cfg (class_start res) (class_end res) (class_duration res)
                  (agg_student cfg g)"
    by auto
  have name: "Name s = fst g"
    by (simp add: s derived_columns_def agg_student_def Let_def)
  from g have "fst g \<in> set (map fst (groupby_User_Name ?students))" by simp
  then have "\<exists>r \<in> set ?students. User_Name r = Some (fst g)"
    unfolding groupby_keys by simp
  then obtain r where r: "r \<in> set ?students" "User_Name r = Some (fst g)"
    by blast
  then show ex: "lower (Name s) \<notin> set (map lower (exclude cfg))"
    by (auto simp: is_excluded_iff name)
  have grp: "snd g = map load_row (filter (\<lambda>r. User_Name_cell r = Some (Name s)) csv)"
    using groupby_group(1) [OF g] students_group [OF ex] by (simp add: name)
  from groupby_group(2) [OF g] grp
  show "filter (\<lambda>r. User_Name_cell r = Some (Name s)) csv \<noteq> []" by auto
  have "g = (Name s, map load_row (filter (\<lambda>r. User_Name_cell r = Some (Name s)) csv))"
    using grp name by (cases g) simp
  with s show "s = derived_columns cfg (class_start res) (class_end res) (class_duration res)
               (agg_student cfg
                  (Name s, map load_row (filter (\<lambda>r. User_Name_cell r = Some (Name s)) csv)))"
    by simp
qed

lemma summary_rowI:
  assumes "analyze_file cfg csv = Inr res" and "r \<in> set csv"
    and "User_Name_cell r = Some n" and "lower n \<notin> set (map lower (exclude cfg))"
  shows "\<exists>s \<in> set (summary res). Name s = n"
proof -
  let ?students = "filter (\<lambda>r. \<not> is_excluded cfg r) (map load_row csv)"
  from assms(2-4) have "load_row r \<in> set ?students" "User_Name (load_row r) = Some n"
    by (auto simp: is_excluded_iff)
  then have "n \<in> set (map fst (groupby_User_Name ?students))"
    unfolding groupby_keys by blast
  then obtain g where g: "g \<in> set (groupby_User_Name ?students)" "fst g = n" by auto
  let ?s = "derived_columns cfg (class_start res) (class_end res) (class_duration res)
                  (agg_student cfg g)"
  have "?s \<in> set (summary res)"
    using g(1) by (simp add: analyze_file_InrD(9) [OF assms(1)])
  moreover have "Name ?s = n"
    using g(2) by (simp add: derived_columns_def agg_student_def Let_def)
  ultimately show ?thesis by blast
qed

lemma summary_names:
  assumes "analyze_file cfg csv = Inr res"
  shows "map Name (summary res)
         = map fst (groupby_User_Name (filter (\<lambda>r. \<not> is_excluded cfg r) (map load_row csv)))"
  by (simp add: analyze_file_InrD(9) [OF assms] derived_columns_def agg_student_def Let_def comp_def)

lemma no_professor_run: "analyze_file CONFIG no_professor_csv = Inr no_professor_report"
  by code_simp

lemma two_spellings_run: "analyze_file CONFIG two_spellings_csv = Inr two_spellings_report"
  by code_simp

lemma summary_fields:
  assumes "s = derived_columns cfg a z d (agg_student cfg (k, grp))"
  shows "Name s = k"
    and "Total_Minutes s = round1 (series_sum (map Duration grp))"
    and "Raw_Sessions s = length grp"
    and "Real_Sessions s = length (filter (is_real_session cfg) grp)"
    and "First_Join s = series_min (map Join_time grp)"
    and "Last_Leave s = series_max (map Leave_time grp)"
  by (simp_all add: assms derived_columns_def agg_student_def Let_def)

lemma missing_name_run: "analyze_file CONFIG missing_name_csv = Inr missing_name_report"
  by code_simp

lemma groupby_named:
  "groupby_User_Name (filter (\<lambda>r. User_Name r \<noteq> None) xs) = groupby_User_Name xs"
proof -
  have k: "dropna (map User_Name (filter (\<lambda>r. User_Name r \<noteq> None) xs)) = dropna (map User_Name xs)"
    unfolding dropna_def by (induction xs) (auto split: option.splits)
  have g: "filter (\<lambda>r. User_Name r = Some k) (filter (\<lambda>r. User_Name r \<noteq> None) xs)
           = filter (\<lambda>r. User_Name r = Some k) xs" for k
    by (induction xs) auto
  show ?thesis
    unfolding groupby_User_Name_def k g ..
qed

lemma class_bounds_fallback_covers:
  assumes "class_bounds cfg df = (out, a, z)" and "filter (is_professor cfg) df = []"
    and "r \<in> set df"
  shows "Join_time r = Some t \<Longrightarrow> \<exists>m. a = Some m \<and> m \<le> t"
    and "Leave_time r = Some t \<Longrightarrow> \<exists>m. z = Some m \<and> t \<le> m"
proof -
  from assms(1,2) have a: "a = series_min (map Join_time df)" and z: "z = series_max (map Leave_time df)"
    by (simp_all add: class_bounds_def)
  show "Join_time r = Some t \<Longrightarrow> \<exists>m. a = Some m \<and> m \<le> t"
    unfolding a using assms(3) by (intro series_min_le) force
  show "Leave_time r = Some t \<Longrightarrow> \<exists>m. z = Some m \<and> t \<le> m"
    unfolding z using assms(3) by (intro series_max_ge) force
qed

lemma class_bounds_professor_covers:
  assumes "class_bounds cfg df = (out, a, z)" and "r \<in> set df" and "is_professor cfg r"
  shows "Join_time r = Some t \<Longrightarrow> \<exists>m. a = Some m \<and> m \<le> t"
    and "Leave_time r = Some t \<Longrightarrow> \<exists>m. z = Some m \<and> t \<le> m"
proof -
  let ?prof = "filter (is_professor cfg) df"
  from assms(2,3) have r: "r \<in> set ?prof" by simp
  then have "?prof \<noteq> []" by (auto simp: filter_empty_conv)
  with assms(1) have a: "a = series_min (map Join_time ?prof)" and z: "z = series_max (map Leave_time ?prof)"
    by (simp_all add: class_bounds_def Let_def)
  show "Join_time r = Some t \<Longrightarrow> \<exists>m. a = Some m \<and> m \<le> t"
    unfolding a using r by (intro series_min_le) force
  show "Leave_time r = Some t \<Longrightarrow> \<exists>m. z = Some m \<and> t \<le> m"
    unfolding z using r by (intro series_max_ge) force
qed

lemma to_datetime_cell_Stamp: "Join_time_cell r = Stamp t \<Longrightarrow> Join_time (load_row r) = Some t"
  "Leave_time_cell r = Stamp t \<Longrightarrow> Leave_time (load_row r) = Some t"
  by simp_all

lemma non_numeric_run: "analyze_file CONFIG non_numeric_csv = Inr non_numeric_report"
  by code_simp

lemma series_sum_load:
  "series_sum (map Duration (map load_row rows)) = (\<Sum>q\<leftarrow>rows. duration_or_zero q)"
  unfolding series_sum_def dropna_def duration_or_zero_def
  by (induction rows) (auto split: option.splits)

lemma rint_of_int: "rint (of_int k) = k"
  by (simp add: rint_def)

lemma round1_tenth:
  assumes "x * 10 \<in> \<int>"
  shows "round1 x = x"
proof -
  from assms obtain k where k: "x * 10 = of_int k" by (elim Ints_cases)
  then have "round1 x = of_int k / 10" by (simp add: round1_def rint_of_int)
  also have "\<dots> = x" using k by simp
  finally show ?thesis .
qed

lemma sum_list_tenth:
  assumes "\<forall>d \<in> set ds. d * 10 \<in> \<int>"
  shows "sum_list ds * 10 \<in> (\<int> :: rat set)"
  using assms by (induction ds) (simp_all add: distrib_right)

lemma duration_or_zero_tenth:
  assumes "\<forall>d. Duration_cell q = Number d \<longrightarrow> d * 10 \<in> \<int>"
  shows "duration_or_zero q * 10 \<in> \<int>"
  using assms by (cases "Duration_cell q") (simp_all add: duration_or_zero_def)

text \<open>Rounding the total to one decimal changes it: 0.26 minutes become 0.3.\<close>

lemma rounding_loses_minutes:
  "map Total_Minutes (summary (projr (analyze_file CONFIG fraction_csv))) = [3 / 10]
   \<and> (\<Sum>q\<leftarrow>filter (\<lambda>q. \<not> is_excluded CONFIG (load_row q)) fraction_csv.
         duration_or_zero q) = 26 / 100"
  by code_simp



lemma two_seconds_run: "analyze_file CONFIG two_seconds_csv = Inr two_seconds_report"
  by code_simp

lemma rint_nonpos:
  assumes "x \<le> 0"
  shows "rint x \<le> 0"
proof (cases "\<lfloor>x\<rfloor> = 0")
  case True
  then have "0 \<le> x" by (metis of_int_0 of_int_floor_le)
  with assms have "x = 0" by simp
  then show ?thesis by (simp add: rint_def)
next
  case False
  moreover from assms have "\<lfloor>x\<rfloor> \<le> 0" by (simp add: floor_le_zero)
  ultimately have "\<lfloor>x\<rfloor> + 1 \<le> 0" by linarith
  then show ?thesis by (simp add: rint_def Let_def)
qed

lemma round1_nonpos: "x \<le> 0 \<Longrightarrow> round1 x \<le> 0"
  using rint_nonpos [of "x * 10"] by (simp add: round1_def mult_le_0_iff divide_le_0_iff)

lemma minutes_between_Some:
  "minutes_between (Some a) (Some b) = Fin (of_int (a - b) / 1000000000 / 60)"
  by (simp add: minutes_between_def)

lemma minutes_between_None [simp]:
  "minutes_between None b = NaN" "minutes_between a None = NaN"
  by (cases a; simp add: minutes_between_def)+

lemma clip_round_minutes:
  "clip_lower 0 (fround1 (minutes_between (Some x) (Some y)))
   = Fin (max 0 (round1 (of_int (x - y) / 1000000000 / 60)))"
  by (simp add: minutes_between_Some)

text \<open>Without a join time the student has no first join: the minutes late are
  \<^verbatim>\<open>NaN\<close> and the student is not late.\<close>

lemma blank_join_run:
  "analyze_file CONFIG blank_join_csv =
     Inr \<lparr>class_start = Some 32400000000000, class_end = Some 36000000000000,
          class_duration = Fin 60, printed = [],
          summary =
            [\<lparr>Name = ''Student A'', Email = [], Total_Minutes = 60, Raw_Sessions = 1,
              Real_Sessions = 1, First_Join = None, Last_Leave = Some 36000000000000,
              Pct_Attended = Fin 100, Late_Join_Min = NaN, Left_Early_Min = Fin 0,
              Is_Late = False, Left_Early = False, Reconnected = False,
              Ghost_Only = False, Status = Present\<rparr>]\<rparr>"
  by code_simp

text \<open>When the run returns, and what it returns: the conditions are those of the five
  places where it raises, and none of them reads the duration of the class.\<close>

lemma analyze_file_returns:
  assumes "\<not> to_datetime_raises (map Join_time_cell csv)"
    and "\<not> to_datetime_raises (map Leave_time_cell csv)"
    and "str_accessor_ok (map load_row csv)"
    and "class_bounds cfg (map load_row csv) = (out, Some a, Some z)"
    and "groupby_User_Name (filter (\<lambda>r. \<not> is_excluded cfg r) (map load_row csv)) \<noteq> []"
  shows "analyze_file cfg csv =
           Inr \<lparr>class_start = Some a, class_end = Some z,
                class_duration = minutes_between (Some z) (Some a), printed = out,
                summary =
                  map (\<lambda>g. derived_columns cfg (Some a) (Some z)
                              (minutes_between (Some z) (Some a)) (agg_student cfg g))
                      (groupby_User_Name
                         (filter (\<lambda>r. \<not> is_excluded cfg r) (map load_row csv)))\<rparr>"
  using assms by (simp add: analyze_file_def Let_def)

lemma analyze_file_returns_iff:
  "(\<exists>res. analyze_file cfg csv = Inr res) \<longleftrightarrow>
     \<not> to_datetime_raises (map Join_time_cell csv)
     \<and> \<not> to_datetime_raises (map Leave_time_cell csv)
     \<and> str_accessor_ok (map load_row csv)
     \<and> (\<exists>out a z. class_bounds cfg (map load_row csv) = (out, Some a, Some z))
     \<and> groupby_User_Name (filter (\<lambda>r. \<not> is_excluded cfg r) (map load_row csv)) \<noteq> []"
proof
  assume "\<exists>res. analyze_file cfg csv = Inr res"
  then obtain res where r: "analyze_file cfg csv = Inr res" ..
  from analyze_file_InrD(6,7) [OF r]
  obtain a z where "class_start res = Some a" "class_end res = Some z" by auto
  with analyze_file_InrD(4) [OF r]
  have "\<exists>out a z. class_bounds cfg (map load_row csv) = (out, Some a, Some z)" by auto
  with analyze_file_InrD(1,2,3,8) [OF r]
  show "\<not> to_datetime_raises (map Join_time_cell csv)
     \<and> \<not> to_datetime_raises (map Leave_time_cell csv)
     \<and> str_accessor_ok (map load_row csv)
     \<and> (\<exists>out a z. class_bounds cfg (map load_row csv) = (out, Some a, Some z))
     \<and> groupby_User_Name (filter (\<lambda>r. \<not> is_excluded cfg r) (map load_row csv)) \<noteq> []"
    by (simp add: to_datetime_raises_def)
next
  assume "\<not> to_datetime_raises (map Join_time_cell csv)
     \<and> \<not> to_datetime_raises (map Leave_time_cell csv)
     \<and> str_accessor_ok (map load_row csv)
     \<and> (\<exists>out a z. class_bounds cfg (map load_row csv) = (out, Some a, Some z))
     \<and> groupby_User_Name (filter (\<lambda>r. \<not> is_excluded cfg r) (map load_row csv)) \<noteq> []"
  then show "\<exists>res. analyze_file cfg csv = Inr res"
    using analyze_file_returns by blast
qed



section \<open>The claims\<close>

text \<open>
  C1. For every row of the summary the status follows a fixed precedence: it is Ghost Join
  whenever the total of minutes is at most \<^verbatim>\<open>ghost_join_max_min\<close>, whatever the percentage
  attended; otherwise Present if the percentage is at least \<^verbatim>\<open>min_attendance_pct\<close>;
  otherwise Absent/Brief. In particular a total of 1 minute with a threshold of 2 is
  always Ghost Join.
\<close>

theorem status_precedence:
  assumes "analyze_file cfg csv = Inr res" and "s \<in> set (summary res)"
  shows "Status s =
           (if Total_Minutes s \<le> ghost_join_max_min cfg then Ghost_Join
            else if fge (Pct_Attended s) (min_attendance_pct cfg) then Present
            else Absent_Brief)
         \<and> (Total_Minutes s = 1 \<and> ghost_join_max_min cfg = 2 \<longrightarrow> Status s = Ghost_Join)"
proof -
  from analyze_file_InrD(9) [OF assms(1)] assms(2)
  obtain a where "s = derived_columns cfg (class_start res) (class_end res) (class_duration res) a"
    by auto
  then show ?thesis
    by (simp add: derived_columns_def Let_def)
qed

theorem status_precedence_witness:
  "analyze_file CONFIG scenario_csv = Inr scenario_report
   \<and> student_D \<in> set (summary scenario_report)
   \<and> Total_Minutes student_D = 1 \<and> ghost_join_max_min CONFIG = 2
   \<and> Status student_D = Ghost_Join"
proof -
  have d: "student_D \<in> set (summary scenario_report)"
    by (simp add: scenario_report_def)
  have t: "Total_Minutes student_D = 1 \<and> ghost_join_max_min CONFIG = 2"
    by (simp add: student_D_def CONFIG_def)
  from status_precedence [OF scenario_run d] t scenario_run d show ?thesis
    by blast
qed

text \<open>
  C2. If at least one row carries the professor's name, compared without regard to case,
  the class starts at the least join time and ends at the greatest leave time of the
  professor's rows. Otherwise it starts at the least join time and ends at the greatest
  leave time of all rows, and the warning that the professor was not found is printed.
\<close>

theorem class_window:
  assumes "analyze_file cfg csv = Inr res"
  shows "if \<exists>r \<in> set csv. is_professor cfg (load_row r)
         then class_start res =
                Some (Min {t. \<exists>r \<in> set csv. is_professor cfg (load_row r) \<and> Join_time_cell r = Stamp t})
            \<and> class_end res =
                Some (Max {t. \<exists>r \<in> set csv. is_professor cfg (load_row r) \<and> Leave_time_cell r = Stamp t})
            \<and> printed res = []
         else class_start res = Some (Min {t. \<exists>r \<in> set csv. Join_time_cell r = Stamp t})
            \<and> class_end res = Some (Max {t. \<exists>r \<in> set csv. Leave_time_cell r = Stamp t})
            \<and> printed res = [Professor_not_found (professor cfg)]"
proof -
  let ?df = "map load_row csv"
  let ?prof = "filter (is_professor cfg) ?df"
  note b = analyze_file_InrD(4) [OF assms]
  from analyze_file_InrD(6,7) [OF assms]
  obtain a z where a: "class_start res = Some a" and z: "class_end res = Some z" by auto
  have stamp: "\<And>r t. r \<in> set csv \<Longrightarrow> to_datetime_cell (Join_time_cell r) = Some t \<longleftrightarrow> Join_time_cell r = Stamp t"
     "\<And>r t. r \<in> set csv \<Longrightarrow> to_datetime_cell (Leave_time_cell r) = Some t \<longleftrightarrow> Leave_time_cell r = Stamp t"
    subgoal for r t by (cases "Join_time_cell r") auto
    subgoal for r t by (cases "Leave_time_cell r") auto
    done
  show ?thesis
  proof (cases "\<exists>r \<in> set csv. is_professor cfg (load_row r)")
    case True
    then have ne: "?prof \<noteq> []" by (auto simp: filter_empty_conv)
    with b have "series_min (map Join_time ?prof) = Some a" "series_max (map Leave_time ?prof) = Some z"
      and p: "printed res = []"
      by (simp_all add: class_bounds_def Let_def a z)
    then have "a = Min (set (dropna (map Join_time ?prof)))" "z = Max (set (dropna (map Leave_time ?prof)))"
      by (simp_all add: series_min_Some series_max_Some)
    moreover have "set (dropna (map Join_time ?prof))
       = {t. \<exists>r \<in> set csv. is_professor cfg (load_row r) \<and> Join_time_cell r = Stamp t}"
      unfolding set_dropna_map using stamp by auto
    moreover have "set (dropna (map Leave_time ?prof))
       = {t. \<exists>r \<in> set csv. is_professor cfg (load_row r) \<and> Leave_time_cell r = Stamp t}"
      unfolding set_dropna_map using stamp by auto
    ultimately show ?thesis using True a z p by simp
  next
    case False
    then have e: "?prof = []" by (auto simp: filter_empty_conv)
    with b have "series_min (map Join_time ?df) = Some a" "series_max (map Leave_time ?df) = Some z"
      and p: "printed res = [Professor_not_found (professor cfg)]"
      by (simp_all add: class_bounds_def Let_def a z)
    then have "a = Min (set (dropna (map Join_time ?df)))" "z = Max (set (dropna (map Leave_time ?df)))"
      by (simp_all add: series_min_Some series_max_Some)
    moreover have "set (dropna (map Join_time ?df)) = {t. \<exists>r \<in> set csv. Join_time_cell r = Stamp t}"
      unfolding set_dropna_map using stamp by auto
    moreover have "set (dropna (map Leave_time ?df)) = {t. \<exists>r \<in> set csv. Leave_time_cell r = Stamp t}"
      unfolding set_dropna_map using stamp by auto
    ultimately show ?thesis using False a z p by simp
  qed
qed

theorem class_window_witness:
  "analyze_file CONFIG scenario_csv = Inr scenario_report
   \<and> (\<exists>r \<in> set scenario_csv. is_professor CONFIG (load_row r))
   \<and> Min {t. \<exists>r \<in> set scenario_csv. is_professor CONFIG (load_row r) \<and> Join_time_cell r = Stamp t}
       = at_minute 540
   \<and> Max {t. \<exists>r \<in> set scenario_csv. is_professor CONFIG (load_row r) \<and> Leave_time_cell r = Stamp t}
       = at_minute 600
   \<and> printed scenario_report = []
   \<and> analyze_file CONFIG no_professor_csv = Inr no_professor_report
   \<and> \<not> (\<exists>r \<in> set no_professor_csv. is_professor CONFIG (load_row r))
   \<and> Min {t. \<exists>r \<in> set no_professor_csv. Join_time_cell r = Stamp t} = at_minute 535
   \<and> Max {t. \<exists>r \<in> set no_professor_csv. Leave_time_cell r = Stamp t} = at_minute 605
   \<and> printed no_professor_report = [Professor_not_found ''beth bonsignore'']"
proof -
  have p: "\<exists>r \<in> set scenario_csv. is_professor CONFIG (load_row r)"
    by code_simp
  have n: "\<not> (\<exists>r \<in> set no_professor_csv. is_professor CONFIG (load_row r))"
    by code_simp
  from class_window [OF scenario_run] p class_window [OF no_professor_run] n
    scenario_run no_professor_run
  show ?thesis
    by (simp add: scenario_report_def no_professor_report_def at_minute_def CONFIG_def)
qed

text \<open>
  C8. Every row of the summary has at least one session, and no more real sessions than
  sessions: the sessions are the rows of the file with that name, the real sessions those
  among them whose duration is a number greater than \<^verbatim>\<open>ghost_join_max_min\<close>.
\<close>

theorem session_counts:
  assumes "analyze_file cfg csv = Inr res" and "s \<in> set (summary res)"
  shows "1 \<le> Raw_Sessions s \<and> Real_Sessions s \<le> Raw_Sessions s
         \<and> Raw_Sessions s = length (filter (\<lambda>r. User_Name_cell r = Some (Name s)) csv)
         \<and> Real_Sessions s =
             length (filter (\<lambda>r. User_Name_cell r = Some (Name s)
                                  \<and> (\<exists>d. Duration_cell r = Number d \<and> ghost_join_max_min cfg < d)) csv)"
proof -
  let ?rows = "filter (\<lambda>r. User_Name_cell r = Some (Name s)) csv"
  note d = summary_rowD [OF assms]
  note f = summary_fields [OF d(3)]
  have real: "is_real_session cfg (load_row r)
              \<longleftrightarrow> (\<exists>d. Duration_cell r = Number d \<and> ghost_join_max_min cfg < d)" for r
    by (cases "Duration_cell r") (simp_all add: is_real_session_def)
  have raw: "Raw_Sessions s = length ?rows"
    using f(3) by simp
  have "Real_Sessions s = length (filter (\<lambda>r. is_real_session cfg (load_row r)) ?rows)"
    using f(4) by (simp add: filter_map comp_def)
  then have rl: "Real_Sessions s =
             length (filter (\<lambda>r. User_Name_cell r = Some (Name s)
                                  \<and> (\<exists>d. Duration_cell r = Number d \<and> ghost_join_max_min cfg < d)) csv)"
    by (simp add: real conj_commute)
  have "1 \<le> length ?rows"
    using d(2) by (cases ?rows) simp_all
  moreover have "Real_Sessions s \<le> Raw_Sessions s"
    unfolding f(3) f(4) by (rule length_filter_le)
  ultimately show ?thesis using raw rl by simp
qed

theorem session_counts_witness:
  "analyze_file CONFIG scenario_csv = Inr scenario_report
   \<and> student_D \<in> set (summary scenario_report)
   \<and> Raw_Sessions student_D = 1 \<and> Real_Sessions student_D = 0
   \<and> length (filter (\<lambda>r. User_Name_cell r = Some ''Student D''
                           \<and> (\<exists>d. Duration_cell r = Number d \<and> 2 < d)) scenario_csv) = 0"
proof -
  have d: "student_D \<in> set (summary scenario_report)"
    by (simp add: scenario_report_def)
  from session_counts [OF scenario_run d] scenario_run d show ?thesis
    by (simp add: student_D_def CONFIG_def)
qed

text \<open>
  C5 fails as stated: the rows are grouped by the name as it stands, so two rows whose
  names differ in case only are two rows of the summary.
\<close>

theorem case_insensitive_grouping_counterexample:
  "analyze_file CONFIG two_spellings_csv = Inr two_spellings_report
   \<and> lower ''Alice'' = lower ''alice''
   \<and> map Name (summary two_spellings_report) = [''Alice'', ''alice'']"
  using two_spellings_run by (simp add: two_spellings_report_def) code_simp

text \<open>
  C5, amended. The rows that are not excluded are grouped by their name as it stands
  (no change of case, no trimming): the summary has exactly one row for each distinct
  name of a row that is not excluded, it shows that name, and it is made of all the rows
  of the file that carry exactly that name.
\<close>

theorem grouping_by_exact_name:
  assumes "analyze_file cfg csv = Inr res"
  shows "distinct (map Name (summary res))
         \<and> set (map Name (summary res))
             = {n. \<exists>r \<in> set csv. User_Name_cell r = Some n \<and> \<not> is_excluded cfg (load_row r)}
         \<and> (\<forall>s \<in> set (summary res).
               s = derived_columns cfg (class_start res) (class_end res) (class_duration res)
                     (agg_student cfg
                        (Name s, map load_row (filter (\<lambda>r. User_Name_cell r = Some (Name s)) csv))))"
proof -
  let ?students = "filter (\<lambda>r. \<not> is_excluded cfg r) (map load_row csv)"
  have n: "map Name (summary res) = map fst (groupby_User_Name ?students)"
    by (rule summary_names [OF assms])
  have "distinct (map Name (summary res))"
    unfolding n by (rule groupby_distinct)
  moreover have "set (map Name (summary res))
             = {n. \<exists>r \<in> set csv. User_Name_cell r = Some n \<and> \<not> is_excluded cfg (load_row r)}"
    unfolding n groupby_keys by auto
  moreover have "\<forall>s \<in> set (summary res).
               s = derived_columns cfg (class_start res) (class_end res) (class_duration res)
                     (agg_student cfg
                        (Name s, map load_row (filter (\<lambda>r. User_Name_cell r = Some (Name s)) csv)))"
    using summary_rowD(3) [OF assms] by blast
  ultimately show ?thesis by blast
qed

theorem grouping_by_exact_name_witness:
  "analyze_file CONFIG two_spellings_csv = Inr two_spellings_report
   \<and> distinct (map Name (summary two_spellings_report))
   \<and> {n. \<exists>r \<in> set two_spellings_csv. User_Name_cell r = Some n \<and> \<not> is_excluded CONFIG (load_row r)}
       = {''Alice'', ''alice''}"
proof -
  note g = grouping_by_exact_name [OF two_spellings_run]
  from g have d: "distinct (map Name (summary two_spellings_report))"
    by blast
  from g have "set (map Name (summary two_spellings_report))
       = {n. \<exists>r \<in> set two_spellings_csv. User_Name_cell r = Some n \<and> \<not> is_excluded CONFIG (load_row r)}"
    by blast
  moreover have "set (map Name (summary two_spellings_report)) = {''Alice'', ''alice''}"
    by (simp add: two_spellings_report_def)
  ultimately have "{n. \<exists>r \<in> set two_spellings_csv. User_Name_cell r = Some n \<and> \<not> is_excluded CONFIG (load_row r)}
       = {''Alice'', ''alice''}"
    by (rule trans [OF sym])
  with d two_spellings_run show ?thesis
    by blast
qed

text \<open>
  C10. A row whose name is missing passes the exclusion filter and is in no group: the
  summary is the one computed from the named rows alone, and its sessions count the named
  rows only. When no row is the professor's, the class starts no later than that row's
  join time and ends no earlier than its leave time.
\<close>

theorem missing_name_row:
  assumes "analyze_file cfg csv = Inr res" and "r \<in> set csv" and "User_Name_cell r = None"
  shows "\<not> is_excluded cfg (load_row r)
         \<and> summary res =
             map (\<lambda>g. derived_columns cfg (class_start res) (class_end res) (class_duration res)
                         (agg_student cfg g))
                 (groupby_User_Name
                    (filter (\<lambda>q. User_Name q \<noteq> None)
                       (filter (\<lambda>q. \<not> is_excluded cfg q) (map load_row csv))))
         \<and> (\<Sum>s\<leftarrow>summary res. Raw_Sessions s)
             = length (filter (\<lambda>q. User_Name_cell q \<noteq> None \<and> \<not> is_excluded cfg (load_row q)) csv)
         \<and> ((\<forall>q \<in> set csv. \<not> is_professor cfg (load_row q)) \<longrightarrow>
              (\<forall>t. Join_time_cell r = Stamp t \<longrightarrow> (\<exists>a. class_start res = Some a \<and> a \<le> t))
              \<and> (\<forall>t. Leave_time_cell r = Stamp t \<longrightarrow> (\<exists>z. class_end res = Some z \<and> t \<le> z)))"
proof -
  let ?df = "map load_row csv"
  let ?students = "filter (\<lambda>q. \<not> is_excluded cfg q) ?df"
  note s = analyze_file_InrD(9) [OF assms(1)]
  have 1: "\<not> is_excluded cfg (load_row r)"
    using assms(3) by (simp add: is_excluded_iff)
  have 2: "summary res =
             map (\<lambda>g. derived_columns cfg (class_start res) (class_end res) (class_duration res)
                         (agg_student cfg g))
                 (groupby_User_Name (filter (\<lambda>q. User_Name q \<noteq> None) ?students))"
    unfolding groupby_named by (rule s)
  have "(\<Sum>s\<leftarrow>summary res. Raw_Sessions s)
        = (\<Sum>g\<leftarrow>groupby_User_Name ?students. sum_list (map (\<lambda>q. 1::nat) (snd g)))"
    unfolding s by (simp add: comp_def derived_columns_def agg_student_def Let_def sum_list_triv)
  also have "\<dots> = sum_list (map (\<lambda>q. 1::nat) (filter (\<lambda>q. User_Name q \<noteq> None) ?students))"
    by (rule sum_list_groupby)
  also have "\<dots> = length (filter (\<lambda>q. User_Name q \<noteq> None) ?students)"
    by (simp add: sum_list_triv)
  also have "\<dots> = length (filter (\<lambda>q. User_Name_cell q \<noteq> None \<and> \<not> is_excluded cfg (load_row q)) csv)"
    by (simp add: filter_map comp_def conj_commute)
  finally have 3: "(\<Sum>s\<leftarrow>summary res. Raw_Sessions s)
             = length (filter (\<lambda>q. User_Name_cell q \<noteq> None \<and> \<not> is_excluded cfg (load_row q)) csv)" .
  have 5: "(\<forall>t. Join_time_cell r = Stamp t \<longrightarrow> (\<exists>a. class_start res = Some a \<and> a \<le> t))
           \<and> (\<forall>t. Leave_time_cell r = Stamp t \<longrightarrow> (\<exists>z. class_end res = Some z \<and> t \<le> z))"
    if "\<forall>q \<in> set csv. \<not> is_professor cfg (load_row q)"
  proof -
    from that have e: "filter (is_professor cfg) ?df = []"
      by (auto simp: filter_empty_conv)
    from assms(2) have m: "load_row r \<in> set ?df" by simp
    note c = class_bounds_fallback_covers [OF analyze_file_InrD(4) [OF assms(1)] e m]
    show ?thesis using c by (auto dest: to_datetime_cell_Stamp)
  qed
  from 1 2 3 5 show ?thesis by blast
qed

theorem missing_name_row_witness:
  "analyze_file CONFIG missing_name_csv = Inr missing_name_report
   \<and> hd missing_name_csv \<in> set missing_name_csv
   \<and> User_Name_cell (hd missing_name_csv) = None
   \<and> \<not> (\<exists>q \<in> set missing_name_csv. is_professor CONFIG (load_row q))
   \<and> Join_time_cell (hd missing_name_csv) = Stamp (at_minute 530)
   \<and> class_start missing_name_report = Some (at_minute 530)
   \<and> map Name (summary missing_name_report) = [''Student A'']
   \<and> (\<Sum>s\<leftarrow>summary missing_name_report. Raw_Sessions s) = 1
   \<and> length (filter (\<lambda>q. User_Name_cell q \<noteq> None \<and> \<not> is_excluded CONFIG (load_row q))
               missing_name_csv) = 1"
proof -
  have r: "hd missing_name_csv \<in> set missing_name_csv"
    by (simp add: missing_name_csv_def)
  have n: "User_Name_cell (hd missing_name_csv) = None"
    by (simp add: missing_name_csv_def)
  have p: "\<forall>q \<in> set missing_name_csv. \<not> is_professor CONFIG (load_row q)"
    by code_simp
  have j: "Join_time_cell (hd missing_name_csv) = Stamp (at_minute 530)"
    by (simp add: missing_name_csv_def attendance_def)
  have v: "class_start missing_name_report = Some (at_minute 530)
           \<and> map Name (summary missing_name_report) = [''Student A'']
           \<and> (\<Sum>s\<leftarrow>summary missing_name_report. Raw_Sessions s) = 1"
    by (simp add: missing_name_report_def at_minute_def)
  from missing_name_row [OF missing_name_run r n]
  have "(\<Sum>s\<leftarrow>summary missing_name_report. Raw_Sessions s)
        = length (filter (\<lambda>q. User_Name_cell q \<noteq> None \<and> \<not> is_excluded CONFIG (load_row q))
                    missing_name_csv)"
    by blast
  with v missing_name_run r n p j show ?thesis
    by simp
qed

text \<open>
  C6. A row whose duration is no number gets a null duration and is kept. It counts as a
  session of its student and adds 0 to the student's total; the student's first join is
  no later than the row's join time and the last leave no earlier than its leave time.
  When the row is the professor's, or no row is, the class bounds cover it likewise.
\<close>

theorem non_numeric_duration:
  assumes "analyze_file cfg csv = Inr res" and "r \<in> set csv"
    and "Duration_cell r = Non_Numeric"
  shows "Duration (load_row r) = None
         \<and> duration_or_zero r = 0
         \<and> (is_professor cfg (load_row r) \<or> (\<forall>q \<in> set csv. \<not> is_professor cfg (load_row q)) \<longrightarrow>
              (\<forall>t. Join_time_cell r = Stamp t \<longrightarrow> (\<exists>a. class_start res = Some a \<and> a \<le> t))
              \<and> (\<forall>t. Leave_time_cell r = Stamp t \<longrightarrow> (\<exists>z. class_end res = Some z \<and> t \<le> z)))
         \<and> (\<forall>n. User_Name_cell r = Some n \<and> \<not> is_excluded cfg (load_row r) \<longrightarrow>
              (\<exists>s \<in> set (summary res).
                 Name s = n
                 \<and> Raw_Sessions s = length (filter (\<lambda>q. User_Name_cell q = Some n) csv)
                 \<and> Total_Minutes s
                     = round1 (\<Sum>q\<leftarrow>filter (\<lambda>q. User_Name_cell q = Some n) csv. duration_or_zero q)
                 \<and> (\<forall>t. Join_time_cell r = Stamp t \<longrightarrow> (\<exists>a. First_Join s = Some a \<and> a \<le> t))
                 \<and> (\<forall>t. Leave_time_cell r = Stamp t \<longrightarrow> (\<exists>z. Last_Leave s = Some z \<and> t \<le> z))))"
proof -
  let ?df = "map load_row csv"
  note b = analyze_file_InrD(4) [OF assms(1)]
  from assms(2) have m: "load_row r \<in> set ?df" by simp
  have 1: "Duration (load_row r) = None \<and> duration_or_zero r = 0"
    using assms(3) by (simp add: duration_or_zero_def)
  have 2: "(\<forall>t. Join_time_cell r = Stamp t \<longrightarrow> (\<exists>a. class_start res = Some a \<and> a \<le> t))
           \<and> (\<forall>t. Leave_time_cell r = Stamp t \<longrightarrow> (\<exists>z. class_end res = Some z \<and> t \<le> z))"
    if "is_professor cfg (load_row r) \<or> (\<forall>q \<in> set csv. \<not> is_professor cfg (load_row q))"
    using that
  proof
    assume "is_professor cfg (load_row r)"
    from class_bounds_professor_covers [OF b m this] show ?thesis
      by (auto dest: to_datetime_cell_Stamp)
  next
    assume "\<forall>q \<in> set csv. \<not> is_professor cfg (load_row q)"
    then have "filter (is_professor cfg) ?df = []"
      by (auto simp: filter_empty_conv)
    from class_bounds_fallback_covers [OF b this m] show ?thesis
      by (auto dest: to_datetime_cell_Stamp)
  qed
  have 3: "\<exists>s \<in> set (summary res).
                 Name s = n
                 \<and> Raw_Sessions s = length (filter (\<lambda>q. User_Name_cell q = Some n) csv)
                 \<and> Total_Minutes s
                     = round1 (\<Sum>q\<leftarrow>filter (\<lambda>q. User_Name_cell q = Some n) csv. duration_or_zero q)
                 \<and> (\<forall>t. Join_time_cell r = Stamp t \<longrightarrow> (\<exists>a. First_Join s = Some a \<and> a \<le> t))
                 \<and> (\<forall>t. Leave_time_cell r = Stamp t \<longrightarrow> (\<exists>z. Last_Leave s = Some z \<and> t \<le> z))"
    if n: "User_Name_cell r = Some n" and x: "\<not> is_excluded cfg (load_row r)" for n
  proof -
    let ?rows = "filter (\<lambda>q. User_Name_cell q = Some n) csv"
    from n x have "lower n \<notin> set (map lower (exclude cfg))"
      by (simp add: is_excluded_iff)
    from summary_rowI [OF assms(1,2) n this]
    obtain s where s: "s \<in> set (summary res)" and name: "Name s = n" by blast
    note f = summary_fields [OF summary_rowD(3) [OF assms(1) s], unfolded name]
    from assms(2) n have g: "r \<in> set ?rows" by simp
    have j: "\<exists>a. First_Join s = Some a \<and> a \<le> t" if "Join_time_cell r = Stamp t" for t
    proof -
      from that have "Join_time (load_row r) = Some t" by simp
      with g have "Some t \<in> set (map Join_time (map load_row ?rows))"
        by (force simp: image_iff)
      then show ?thesis unfolding f(5) by (rule series_min_le)
    qed
    have l: "\<exists>z. Last_Leave s = Some z \<and> t \<le> z" if "Leave_time_cell r = Stamp t" for t
    proof -
      from that have "Leave_time (load_row r) = Some t" by simp
      with g have "Some t \<in> set (map Leave_time (map load_row ?rows))"
        by (force simp: image_iff)
      then show ?thesis unfolding f(6) by (rule series_max_ge)
    qed
    have "Raw_Sessions s = length ?rows"
      using f(3) by simp
    moreover have "Total_Minutes s = round1 (\<Sum>q\<leftarrow>?rows. duration_or_zero q)"
      unfolding f(2) series_sum_load ..
    ultimately show ?thesis using s name j l by blast
  qed
  from 1 2 3 show ?thesis by blast
qed

theorem non_numeric_duration_witness:
  "analyze_file CONFIG non_numeric_csv = Inr non_numeric_report
   \<and> hd non_numeric_csv \<in> set non_numeric_csv
   \<and> Duration_cell (hd non_numeric_csv) = Non_Numeric
   \<and> \<not> (\<exists>q \<in> set non_numeric_csv. is_professor CONFIG (load_row q))
   \<and> User_Name_cell (hd non_numeric_csv) = Some ''Student A''
   \<and> \<not> is_excluded CONFIG (load_row (hd non_numeric_csv))
   \<and> Join_time_cell (hd non_numeric_csv) = Stamp (at_minute 530)
   \<and> Leave_time_cell (hd non_numeric_csv) = Stamp (at_minute 610)
   \<and> (\<exists>a. class_start non_numeric_report = Some a \<and> a \<le> at_minute 530)
   \<and> (\<exists>z. class_end non_numeric_report = Some z \<and> at_minute 610 \<le> z)
   \<and> (\<exists>s \<in> set (summary non_numeric_report).
         Name s = ''Student A''
         \<and> Raw_Sessions s = length (filter (\<lambda>q. User_Name_cell q = Some ''Student A'') non_numeric_csv)
         \<and> Total_Minutes s
             = round1 (\<Sum>q\<leftarrow>filter (\<lambda>q. User_Name_cell q = Some ''Student A'') non_numeric_csv.
                         duration_or_zero q)
         \<and> (\<exists>a. First_Join s = Some a \<and> a \<le> at_minute 530)
         \<and> (\<exists>z. Last_Leave s = Some z \<and> at_minute 610 \<le> z))"
proof -
  have r: "hd non_numeric_csv \<in> set non_numeric_csv"
    by (simp add: non_numeric_csv_def)
  have d: "Duration_cell (hd non_numeric_csv) = Non_Numeric"
    by (simp add: non_numeric_csv_def)
  have p: "\<forall>q \<in> set non_numeric_csv. \<not> is_professor CONFIG (load_row q)"
    by code_simp
  have n: "User_Name_cell (hd non_numeric_csv) = Some ''Student A''"
    by (simp add: non_numeric_csv_def attendance_def)
  have x: "\<not> is_excluded CONFIG (load_row (hd non_numeric_csv))"
    by code_simp
  have j: "Join_time_cell (hd non_numeric_csv) = Stamp (at_minute 530)"
    and l: "Leave_time_cell (hd non_numeric_csv) = Stamp (at_minute 610)"
    by (simp_all add: non_numeric_csv_def attendance_def)
  from non_numeric_duration [OF non_numeric_run r d] p n x j l non_numeric_run r d
  show ?thesis
    by blast
qed

text \<open>
  C7 fails as stated: a row without a name passes the exclusion filter, and its duration
  is in no total.
\<close>

theorem conservation_counterexample:
  "analyze_file CONFIG missing_name_csv = Inr missing_name_report
   \<and> (\<Sum>s\<leftarrow>summary missing_name_report. Total_Minutes s) = 60
   \<and> (\<Sum>q\<leftarrow>filter (\<lambda>q. \<not> is_excluded CONFIG (load_row q)) missing_name_csv.
         duration_or_zero q) = 140"
proof -
  have "(\<Sum>s\<leftarrow>summary missing_name_report. Total_Minutes s) = 60"
    by (simp add: missing_name_report_def)
  moreover have "(\<Sum>q\<leftarrow>filter (\<lambda>q. \<not> is_excluded CONFIG (load_row q)) missing_name_csv.
         duration_or_zero q) = 140"
    by code_simp
  ultimately show ?thesis using missing_name_run by blast
qed

text \<open>
  C7, amended. When the duration of every row that has a name and is not excluded is a
  multiple of a tenth of a minute (or no number), the totals of the summary add up to
  the durations of the rows that have a name and are not excluded, what is no number
  counting 0. (In general a total is the sum of its group rounded to one decimal, and a
  row without a name is in no group.)
\<close>

theorem conservation:
  assumes "analyze_file cfg csv = Inr res"
    and "\<forall>q \<in> set csv. User_Name_cell q \<noteq> None \<and> \<not> is_excluded cfg (load_row q) \<longrightarrow>
            (\<forall>d. Duration_cell q = Number d \<longrightarrow> d * 10 \<in> \<int>)"
  shows "(\<Sum>s\<leftarrow>summary res. Total_Minutes s)
         = (\<Sum>q\<leftarrow>filter (\<lambda>q. User_Name_cell q \<noteq> None \<and> \<not> is_excluded cfg (load_row q)) csv.
              duration_or_zero q)"
proof -
  let ?students = "filter (\<lambda>q. \<not> is_excluded cfg q) (map load_row csv)"
  let ?d = "\<lambda>r. case Duration r of None \<Rightarrow> 0 | Some d \<Rightarrow> d"
  have sum: "series_sum (map Duration grp) = sum_list (map ?d grp)" for grp
    unfolding series_sum_def dropna_def by (induction grp) (auto split: option.splits)
  have tot: "Total_Minutes (derived_columns cfg (class_start res) (class_end res) (class_duration res)
                              (agg_student cfg g))
             = sum_list (map ?d (snd g))"
    if g: "g \<in> set (groupby_User_Name ?students)" for g
  proof -
    have "\<forall>r \<in> set (snd g). ?d r * 10 \<in> \<int>"
    proof
      fix r assume "r \<in> set (snd g)"
      then have "r \<in> set ?students" and "User_Name r = Some (fst g)"
        unfolding groupby_group(1) [OF g] by simp_all
      then obtain q where q: "q \<in> set csv" "r = load_row q" "\<not> is_excluded cfg (load_row q)"
        "User_Name_cell q \<noteq> None"
        by auto
      with assms(2) have "\<forall>d. Duration_cell q = Number d \<longrightarrow> d * 10 \<in> \<int>" by blast
      from duration_or_zero_tenth [OF this] show "?d r * 10 \<in> \<int>"
        by (simp add: q(2) duration_or_zero_def)
    qed
    then have "sum_list (map ?d (snd g)) * 10 \<in> \<int>"
      by (intro sum_list_tenth) auto
    then have "round1 (sum_list (map ?d (snd g))) = sum_list (map ?d (snd g))"
      by (rule round1_tenth)
    then show ?thesis
      by (simp add: derived_columns_def agg_student_def Let_def sum)
  qed
  have "(\<Sum>s\<leftarrow>summary res. Total_Minutes s)
        = (\<Sum>g\<leftarrow>groupby_User_Name ?students. sum_list (map ?d (snd g)))"
    unfolding analyze_file_InrD(9) [OF assms(1)] map_map comp_def
    by (intro arg_cong [where f = sum_list] map_cong refl tot)
  also have "\<dots> = sum_list (map ?d (filter (\<lambda>r. User_Name r \<noteq> None) ?students))"
    by (rule sum_list_groupby)
  also have "\<dots> = (\<Sum>q\<leftarrow>filter (\<lambda>q. User_Name_cell q \<noteq> None \<and> \<not> is_excluded cfg (load_row q)) csv.
              duration_or_zero q)"
    by (simp add: filter_map comp_def conj_commute duration_or_zero_def)
  finally show ?thesis .
qed

theorem conservation_witness:
  "analyze_file CONFIG scenario_csv = Inr scenario_report
   \<and> \<not> (\<exists>q \<in> set scenario_csv. User_Name_cell q \<noteq> None \<and> \<not> is_excluded CONFIG (load_row q)
            \<and> (\<exists>d. Duration_cell q = Number d \<and> d * 10 \<notin> \<int>))
   \<and> (\<Sum>s\<leftarrow>summary scenario_report. Total_Minutes s) = 146
   \<and> (\<Sum>q\<leftarrow>filter (\<lambda>q. User_Name_cell q \<noteq> None \<and> \<not> is_excluded CONFIG (load_row q)) scenario_csv.
         duration_or_zero q) = 146"
proof -
  have h: "\<forall>q \<in> set scenario_csv. User_Name_cell q \<noteq> None \<and> \<not> is_excluded CONFIG (load_row q) \<longrightarrow>
            (\<forall>d. Duration_cell q = Number d \<longrightarrow> d * 10 \<in> \<int>)"
    by (simp add: scenario_csv_def attendance_def)
  have t: "(\<Sum>s\<leftarrow>summary scenario_report. Total_Minutes s) = 146"
    by (simp add: scenario_report_def student_A_def student_B_def student_C_def student_D_def)
  from h have h': "\<not> (\<exists>q \<in> set scenario_csv. User_Name_cell q \<noteq> None \<and> \<not> is_excluded CONFIG (load_row q)
            \<and> (\<exists>d. Duration_cell q = Number d \<and> d * 10 \<notin> \<int>))"
    by blast
  from conservation [OF scenario_run h] t have "(\<Sum>q\<leftarrow>filter (\<lambda>q. User_Name_cell q \<noteq> None \<and> \<not> is_excluded CONFIG (load_row q)) scenario_csv.
         duration_or_zero q) = 146"
    by simp
  with t h' scenario_run show ?thesis
    by blast
qed




text \<open>
  C4 fails as stated: one time that is no date makes \<^verbatim>\<open>to_datetime\<close> raise, and the run
  ends there, although the same file without that row is analysed.
\<close>

theorem skip_unparseable_row_counterexample:
  "analyze_file CONFIG garbled_csv = Inl DateParseError
   \<and> analyze_file CONFIG (butlast garbled_csv) \<noteq> Inl DateParseError"
  by code_simp

text \<open>
  C4, amended. A join or leave time that cannot be parsed, in any row, aborts the whole
  run with the error of the parser: no row is skipped and there is no report.
\<close>

theorem unparseable_timestamp_aborts:
  assumes "\<exists>r \<in> set csv. Join_time_cell r = Garbled_Time \<or> Leave_time_cell r = Garbled_Time"
  shows "analyze_file cfg csv = Inl DateParseError"
proof -
  from assms have "to_datetime_raises (map Join_time_cell csv)
                   \<or> to_datetime_raises (map Leave_time_cell csv)"
    by (force simp: to_datetime_raises_def image_iff)
  then show ?thesis
    by (auto simp: analyze_file_def)
qed

theorem unparseable_timestamp_aborts_witness:
  "(\<exists>r \<in> set garbled_csv. Join_time_cell r = Garbled_Time \<or> Leave_time_cell r = Garbled_Time)
   \<and> analyze_file CONFIG garbled_csv = Inl DateParseError"
proof -
  have h: "\<exists>r \<in> set garbled_csv. Join_time_cell r = Garbled_Time \<or> Leave_time_cell r = Garbled_Time"
    by (simp add: garbled_csv_def)
  from unparseable_timestamp_aborts [OF h] h show ?thesis
    by blast
qed

text \<open>
  C9 fails as stated: the minutes are rounded to one decimal before they are compared
  with the threshold. Ten minutes and two seconds after the start, with a threshold of
  ten minutes, is ten minutes late and not late.
\<close>

theorem lateness_counterexample:
  "analyze_file CONFIG two_seconds_csv = Inr two_seconds_report
   \<and> class_start two_seconds_report = Some (at_minute 540)
   \<and> map First_Join (summary two_seconds_report) = [Some (at_minute 550 + 2000000000)]
   \<and> max 0 (rat_of_int (at_minute 550 + 2000000000 - at_minute 540) / 1000000000 / 60) = 301 / 30
   \<and> late_threshold_min CONFIG < 301 / 30
   \<and> map Late_Join_Min (summary two_seconds_report) = [Fin 10]
   \<and> map Is_Late (summary two_seconds_report) = [False]"
  using two_seconds_run
  by (simp add: two_seconds_report_def at_minute_def CONFIG_def)

text \<open>
  C9, amended. For a student with a first join, \<^verbatim>\<open>Late_Join_Min\<close> is the greater of 0
  and the minutes from the class start to the first join rounded to one decimal;
  for a student with a last leave, \<^verbatim>\<open>Left_Early_Min\<close> is the greater of 0 and the
  minutes from the last leave to the class end rounded to one decimal; without that time the
  value is \<^verbatim>\<open>NaN\<close>. The flags compare these rounded values strictly with the thresholds
  (and are false on \<^verbatim>\<open>NaN\<close>). A student who joins no later than the class
  starts is 0 minutes late.
\<close>

theorem lateness:
  assumes "analyze_file cfg csv = Inr res" and "s \<in> set (summary res)"
  shows "\<exists>a z. class_start res = Some a \<and> class_end res = Some z
           \<and> Late_Join_Min s =
               (case First_Join s of
                  None \<Rightarrow> NaN
                | Some j \<Rightarrow> Fin (max 0 (round1 (of_int (j - a) / 1000000000 / 60))))
           \<and> Left_Early_Min s =
               (case Last_Leave s of
                  None \<Rightarrow> NaN
                | Some l \<Rightarrow> Fin (max 0 (round1 (of_int (z - l) / 1000000000 / 60))))
           \<and> Is_Late s =
               (case First_Join s of
                  None \<Rightarrow> False
                | Some j \<Rightarrow> late_threshold_min cfg
                              < max 0 (round1 (of_int (j - a) / 1000000000 / 60)))
           \<and> Left_Early s =
               (case Last_Leave s of
                  None \<Rightarrow> False
                | Some l \<Rightarrow> early_leave_threshold_min cfg
                              < max 0 (round1 (of_int (z - l) / 1000000000 / 60)))
           \<and> (\<forall>j. First_Join s = Some j \<and> j \<le> a \<longrightarrow> Late_Join_Min s = Fin 0)"
proof -
  from analyze_file_InrD(6,7) [OF assms(1)]
  obtain a z where a: "class_start res = Some a" and z: "class_end res = Some z" by auto
  from analyze_file_InrD(9) [OF assms(1)] assms(2)
  obtain g where s: "s = derived_columns cfg (Some a) (Some z) (class_duration res) g"
    unfolding a z by auto
  have fj: "First_Join s = First_Join g" and ll: "Last_Leave s = Last_Leave g"
    by (simp_all add: s derived_columns_def Let_def)
  have late: "Late_Join_Min s = clip_lower 0 (fround1 (minutes_between (First_Join s) (Some a)))"
    and early: "Left_Early_Min s = clip_lower 0 (fround1 (minutes_between (Some z) (Last_Leave s)))"
    and il: "Is_Late s = fgt (Late_Join_Min s) (late_threshold_min cfg)"
    and le: "Left_Early s = fgt (Left_Early_Min s) (early_leave_threshold_min cfg)"
    by (simp_all add: s derived_columns_def Let_def)
  have 1: "Late_Join_Min s =
               (case First_Join s of
                  None \<Rightarrow> NaN
                | Some j \<Rightarrow> Fin (max 0 (round1 (of_int (j - a) / 1000000000 / 60))))"
    unfolding late by (cases "First_Join s") (simp_all add: clip_round_minutes)
  have 2: "Left_Early_Min s =
               (case Last_Leave s of
                  None \<Rightarrow> NaN
                | Some l \<Rightarrow> Fin (max 0 (round1 (of_int (z - l) / 1000000000 / 60))))"
    unfolding early by (cases "Last_Leave s") (simp_all add: clip_round_minutes)
  have 3: "Is_Late s =
               (case First_Join s of
                  None \<Rightarrow> False
                | Some j \<Rightarrow> late_threshold_min cfg
                              < max 0 (round1 (of_int (j - a) / 1000000000 / 60)))"
    unfolding il 1 by (cases "First_Join s") simp_all
  have 4: "Left_Early s =
               (case Last_Leave s of
                  None \<Rightarrow> False
                | Some l \<Rightarrow> early_leave_threshold_min cfg
                              < max 0 (round1 (of_int (z - l) / 1000000000 / 60)))"
    unfolding le 2 by (cases "Last_Leave s") simp_all
  have 5: "Late_Join_Min s = Fin 0" if "First_Join s = Some j" and "j \<le> a" for j
  proof -
    from that(2) have "rat_of_int (j - a) / 1000000000 / 60 \<le> 0"
      by (simp add: divide_le_0_iff)
    then have "round1 (rat_of_int (j - a) / 1000000000 / 60) \<le> 0"
      by (rule round1_nonpos)
    then show ?thesis
      unfolding 1 that(1) by (simp add: max_def)
  qed
  from a z 1 2 3 4 5 show ?thesis by blast
qed

theorem lateness_witness:
  "analyze_file CONFIG two_seconds_csv = Inr two_seconds_report
   \<and> hd (summary two_seconds_report) \<in> set (summary two_seconds_report)
   \<and> class_start two_seconds_report = Some (at_minute 540)
   \<and> First_Join (hd (summary two_seconds_report)) = Some (at_minute 550 + 2000000000)
   \<and> Late_Join_Min (hd (summary two_seconds_report))
       = Fin (max 0 (round1 (rat_of_int (at_minute 550 + 2000000000 - at_minute 540) / 1000000000 / 60)))
   \<and> Is_Late (hd (summary two_seconds_report))
       = (late_threshold_min CONFIG
            < max 0 (round1 (rat_of_int (at_minute 550 + 2000000000 - at_minute 540) / 1000000000 / 60)))"
proof -
  have m: "hd (summary two_seconds_report) \<in> set (summary two_seconds_report)"
    by (simp add: two_seconds_report_def)
  have c: "class_start two_seconds_report = Some (at_minute 540)"
    and f: "First_Join (hd (summary two_seconds_report)) = Some (at_minute 550 + 2000000000)"
    by (simp_all add: two_seconds_report_def at_minute_def)
  from lateness [OF two_seconds_run m] c f two_seconds_run m show ?thesis
    by auto
qed



end
